theory Spec2Isabelle
  imports Complex_Main "HOL-Library.Sublist"
begin

section \<open>Synthetic real-estate rows appended to an existing CSV file\<close>

text \<open>
  A shallow embedding of \<^verbatim>\<open>generate_synthetic_vn_real_estate.py\<close>.

  \<^item> A Python \<^verbatim>\<open>str\<close> is a \<^typ>\<open>string\<close> holding its UTF-8 encoding, byte by byte; the
    encoding is injective, so equality and list membership of strings are those of Python.
    The file on disk is UTF-8 text, so a file's content is a \<^typ>\<open>string\<close> as well.
  \<^item> A Python \<^verbatim>\<open>int\<close> is an \<^typ>\<open>int\<close>. A Python \<^verbatim>\<open>float\<close> is the \<^typ>\<open>real\<close> number
    it denotes: rounding errors of floating-point arithmetic are not part of the model.
  \<^item> The random generators (\<^verbatim>\<open>random\<close>, \<^verbatim>\<open>Faker\<close>) and the \<^verbatim>\<open>csv\<close> module are
    libraries outside the script. They are a parameter of the model (a record of
    functions); the ambient generator state is threaded through every call.
  \<^item> The process state is a record: the files (a map from paths to contents), the lines
    printed so far, and the generator state. An exception is a value, returned with the
    state in which it was raised. Failures of the operating system while reading or
    writing (permissions, a full disk, undecodable bytes) are not modelled.
\<close>

subsection \<open>Module constants\<close>

definition Can_ho_chung_cu :: string where
  "Can_ho_chung_cu = ''C'' @ [CHR 0xC4, CHR 0x83] @ ''n h'' @ [CHR 0xE1, CHR 0xBB, CHR 0x99] @ '', chung c'' @ [CHR 0xC6, CHR 0xB0]"

definition PROPERTY_TYPES :: "string list" where
  "PROPERTY_TYPES =
    [Can_ho_chung_cu]"

definition Can_ban :: string where
  "Can_ban = ''C'' @ [CHR 0xE1, CHR 0xBA, CHR 0xA7] @ ''n b'' @ [CHR 0xC3, CHR 0xA1] @ ''n''"

definition Can_thue :: string where
  "Can_thue = ''C'' @ [CHR 0xE1, CHR 0xBA, CHR 0xA7] @ ''n thu'' @ [CHR 0xC3, CHR 0xAA]"

definition TRANSACTION_TYPES :: "string list" where
  "TRANSACTION_TYPES =
    [Can_ban, Can_thue]"

definition CITY :: string where
  "CITY = ''H'' @ [CHR 0xE1, CHR 0xBB, CHR 0x93] @ '' Ch'' @ [CHR 0xC3, CHR 0xAD] @ '' Minh''"

definition Quan_9 :: string where
  "Quan_9 = ''Qu'' @ [CHR 0xE1, CHR 0xBA, CHR 0xAD] @ ''n 9''"

definition Quan_Tan_Binh :: string where
  "Quan_Tan_Binh = ''Qu'' @ [CHR 0xE1, CHR 0xBA, CHR 0xAD] @ ''n T'' @ [CHR 0xC3, CHR 0xA2] @ ''n B'' @ [CHR 0xC3, CHR 0xAC] @ ''nh''"

definition Quan_Tan_Phu :: string where
  "Quan_Tan_Phu = ''Qu'' @ [CHR 0xE1, CHR 0xBA, CHR 0xAD] @ ''n T'' @ [CHR 0xC3, CHR 0xA2] @ ''n Ph'' @ [CHR 0xC3, CHR 0xBA]"

definition Quan_7 :: string where
  "Quan_7 = ''Qu'' @ [CHR 0xE1, CHR 0xBA, CHR 0xAD] @ ''n 7''"

definition Quan_2 :: string where
  "Quan_2 = ''Qu'' @ [CHR 0xE1, CHR 0xBA, CHR 0xAD] @ ''n 2''"

definition Quan_11 :: string where
  "Quan_11 = ''Qu'' @ [CHR 0xE1, CHR 0xBA, CHR 0xAD] @ ''n 11''"

definition Quan_Thu_Duc :: string where
  "Quan_Thu_Duc = ''Qu'' @ [CHR 0xE1, CHR 0xBA, CHR 0xAD] @ ''n Th'' @ [CHR 0xE1, CHR 0xBB, CHR 0xA7] @ '' '' @ [CHR 0xC4, CHR 0x90, CHR 0xE1, CHR 0xBB, CHR 0xA9] @ ''c''"

definition Huyen_Binh_Chanh :: string where
  "Huyen_Binh_Chanh = ''Huy'' @ [CHR 0xE1, CHR 0xBB, CHR 0x87] @ ''n B'' @ [CHR 0xC3, CHR 0xAC] @ ''nh Ch'' @ [CHR 0xC3, CHR 0xA1] @ ''nh''"

definition Quan_Binh_Tan :: string where
  "Quan_Binh_Tan = ''Qu'' @ [CHR 0xE1, CHR 0xBA, CHR 0xAD] @ ''n B'' @ [CHR 0xC3, CHR 0xAC] @ ''nh T'' @ [CHR 0xC3, CHR 0xA2] @ ''n''"

definition Quan_12 :: string where
  "Quan_12 = ''Qu'' @ [CHR 0xE1, CHR 0xBA, CHR 0xAD] @ ''n 12''"

definition Quan_1 :: string where
  "Quan_1 = ''Qu'' @ [CHR 0xE1, CHR 0xBA, CHR 0xAD] @ ''n 1''"

definition Quan_3 :: string where
  "Quan_3 = ''Qu'' @ [CHR 0xE1, CHR 0xBA, CHR 0xAD] @ ''n 3''"

definition DISTRICTS :: "string list" where
  "DISTRICTS =
    [Quan_9, Quan_Tan_Binh, Quan_Tan_Phu, Quan_7, Quan_2, Quan_11, Quan_Thu_Duc,
     Huyen_Binh_Chanh, Quan_Binh_Tan, Quan_12, Quan_1, Quan_3]"

definition Huong_Dong_Bac :: string where
  "Huong_Dong_Bac = [CHR 0xC4, CHR 0x90, CHR 0xC3, CHR 0xB4] @ ''ng B'' @ [CHR 0xE1, CHR 0xBA, CHR 0xAF] @ ''c''"

definition Huong_Tay :: string where
  "Huong_Tay = ''T'' @ [CHR 0xC3, CHR 0xA2] @ ''y''"

definition Huong_Nam :: string where
  "Huong_Nam = ''Nam''"

definition Huong_Tay_Bac :: string where
  "Huong_Tay_Bac = ''T'' @ [CHR 0xC3, CHR 0xA2] @ ''y B'' @ [CHR 0xE1, CHR 0xBA, CHR 0xAF] @ ''c''"

definition Huong_Bac :: string where
  "Huong_Bac = ''B'' @ [CHR 0xE1, CHR 0xBA, CHR 0xAF] @ ''c''"

definition Huong_Tay_Nam :: string where
  "Huong_Tay_Nam = ''T'' @ [CHR 0xC3, CHR 0xA2] @ ''y Nam''"

definition Huong_Dong :: string where
  "Huong_Dong = [CHR 0xC4, CHR 0x90, CHR 0xC3, CHR 0xB4] @ ''ng''"

definition Huong_Dong_Nam :: string where
  "Huong_Dong_Nam = [CHR 0xC4, CHR 0x90, CHR 0xC3, CHR 0xB4] @ ''ng Nam''"

definition DIRECTIONS :: "string list" where
  "DIRECTIONS =
    [Huong_Dong_Bac, Huong_Tay, Huong_Nam, Huong_Tay_Bac, Huong_Bac, Huong_Tay_Nam,
     Huong_Dong, Huong_Dong_Nam]"

definition Da_co_so :: string where
  "Da_co_so = [CHR 0xC4, CHR 0x90, CHR 0xC3, CHR 0xA3] @ '' c'' @ [CHR 0xC3, CHR 0xB3] @ '' s'' @ [CHR 0xE1, CHR 0xBB, CHR 0x95]"

definition Dang_cho_so :: string where
  "Dang_cho_so = [CHR 0xC4, CHR 0x90] @ ''ang ch'' @ [CHR 0xE1, CHR 0xBB, CHR 0x9D] @ '' s'' @ [CHR 0xE1, CHR 0xBB, CHR 0x95]"

definition LEGAL_PAPERS :: "string list" where
  "LEGAL_PAPERS =
    [Da_co_so, Dang_cho_so, '''']"

definition COL_GIONG_LOAI :: string where
  "COL_GIONG_LOAI = ''GI'' @ [CHR 0xE1, CHR 0xBB, CHR 0x90] @ ''NG - LO'' @ [CHR 0xE1, CHR 0xBA, CHR 0xA0] @ ''I''"

definition COL_GIONG_NHU_CAU :: string where
  "COL_GIONG_NHU_CAU = ''GI'' @ [CHR 0xE1, CHR 0xBB, CHR 0x90] @ ''NG - NHU C'' @ [CHR 0xE1, CHR 0xBA, CHR 0xA6] @ ''U''"

definition COL_GIONG_TINH_THANH :: string where
  "COL_GIONG_TINH_THANH = ''GI'' @ [CHR 0xE1, CHR 0xBB, CHR 0x90] @ ''NG - T'' @ [CHR 0xE1, CHR 0xBB, CHR 0x88] @ ''NH TH'' @ [CHR 0xC3, CHR 0x80] @ ''NH''"

definition COL_QUAN_HUYEN :: string where
  "COL_QUAN_HUYEN = ''QU'' @ [CHR 0xE1, CHR 0xBA, CHR 0xAC] @ ''N HUY'' @ [CHR 0xE1, CHR 0xBB, CHR 0x86] @ ''N''"

definition COL_GIA_TRIEU_DONG :: string where
  "COL_GIA_TRIEU_DONG = ''GI'' @ [CHR 0xC3, CHR 0x81] @ '' - TRI'' @ [CHR 0xE1, CHR 0xBB, CHR 0x86] @ ''U '' @ [CHR 0xC4, CHR 0x90, CHR 0xE1, CHR 0xBB, CHR 0x92] @ ''NG''"

definition COL_DIEN_TICH_M2 :: string where
  "COL_DIEN_TICH_M2 = ''DI'' @ [CHR 0xE1, CHR 0xBB, CHR 0x86] @ ''N T'' @ [CHR 0xC3, CHR 0x8D] @ ''CH - M2''"

definition COL_HUONG :: string where
  "COL_HUONG = ''H'' @ [CHR 0xC6, CHR 0xAF, CHR 0xE1, CHR 0xBB, CHR 0x9A] @ ''NG''"

definition COL_SO_TANG :: string where
  "COL_SO_TANG = ''S'' @ [CHR 0xE1, CHR 0xBB, CHR 0x90] @ '' T'' @ [CHR 0xE1, CHR 0xBA, CHR 0xA6] @ ''NG''"

definition COL_SO_PHONG :: string where
  "COL_SO_PHONG = ''S'' @ [CHR 0xE1, CHR 0xBB, CHR 0x90] @ '' PH'' @ [CHR 0xC3, CHR 0x92] @ ''NG''"

definition COL_SO_TOILETS :: string where
  "COL_SO_TOILETS = ''S'' @ [CHR 0xE1, CHR 0xBB, CHR 0x90] @ '' TOILETS''"

definition COL_GIAY_TO_PHAP_LY :: string where
  "COL_GIAY_TO_PHAP_LY = ''GI'' @ [CHR 0xE1, CHR 0xBA, CHR 0xA4] @ ''Y T'' @ [CHR 0xE1, CHR 0xBB, CHR 0x9C] @ '' PH'' @ [CHR 0xC3, CHR 0x81] @ ''P L'' @ [CHR 0xC3, CHR 0x9D]"

definition HEADER :: "string list" where
  "HEADER =
    [COL_GIONG_LOAI, COL_GIONG_NHU_CAU, COL_GIONG_TINH_THANH, COL_QUAN_HUYEN,
     COL_GIA_TRIEU_DONG, COL_DIEN_TICH_M2, COL_HUONG, COL_SO_TANG, COL_SO_PHONG,
     COL_SO_TOILETS, COL_GIAY_TO_PHAP_LY]"

text \<open>
  \<^verbatim>\<open>DISTRICT_PRICE_RANGE\<close>, the dictionary local to \<^verbatim>\<open>generate_row\<close>: three keys, each
  bound to a list of district names.
\<close>

datatype tier_key = cao | trung | thap

definition Quan_4 :: string where
  "Quan_4 = ''Qu'' @ [CHR 0xE1, CHR 0xBA, CHR 0xAD] @ ''n 4''"

definition Quan_5 :: string where
  "Quan_5 = ''Qu'' @ [CHR 0xE1, CHR 0xBA, CHR 0xAD] @ ''n 5''"

definition Quan_Binh_Thanh :: string where
  "Quan_Binh_Thanh = ''Qu'' @ [CHR 0xE1, CHR 0xBA, CHR 0xAD] @ ''n B'' @ [CHR 0xC3, CHR 0xAC] @ ''nh Th'' @ [CHR 0xE1, CHR 0xBA, CHR 0xA1] @ ''nh''"

definition Quan_Phu_Nhuan :: string where
  "Quan_Phu_Nhuan = ''Qu'' @ [CHR 0xE1, CHR 0xBA, CHR 0xAD] @ ''n Ph'' @ [CHR 0xC3, CHR 0xBA] @ '' Nhu'' @ [CHR 0xE1, CHR 0xBA, CHR 0xAD] @ ''n''"

definition Quan_10 :: string where
  "Quan_10 = ''Qu'' @ [CHR 0xE1, CHR 0xBA, CHR 0xAD] @ ''n 10''"



definition Huyen_Nha_Be :: string where
  "Huyen_Nha_Be = ''Huy'' @ [CHR 0xE1, CHR 0xBB, CHR 0x87] @ ''n Nh'' @ [CHR 0xC3, CHR 0xA0] @ '' B'' @ [CHR 0xC3, CHR 0xA8]"

definition Huyen_Hoc_Mon :: string where
  "Huyen_Hoc_Mon = ''Huy'' @ [CHR 0xE1, CHR 0xBB, CHR 0x87] @ ''n H'' @ [CHR 0xC3, CHR 0xB3] @ ''c M'' @ [CHR 0xC3, CHR 0xB4] @ ''n''"

fun DISTRICT_PRICE_RANGE :: "tier_key \<Rightarrow> string list" where
  "DISTRICT_PRICE_RANGE cao =
     [Quan_1, Quan_3, Quan_4, Quan_5, Quan_Binh_Thanh,
      Quan_Phu_Nhuan, Quan_10]"
| "DISTRICT_PRICE_RANGE trung =
     [Quan_2, Quan_7, Quan_Tan_Binh, Quan_Tan_Phu, Quan_11,
      Quan_9, Quan_Thu_Duc]"
| "DISTRICT_PRICE_RANGE thap =
     [Quan_12, Quan_Binh_Tan, Huyen_Binh_Chanh, Huyen_Nha_Be, Huyen_Hoc_Mon]"

subsection \<open>Python built-ins used by the script\<close>

text \<open>\<^verbatim>\<open>str(n)\<close> for an integer: decimal digits, most significant first, \<^verbatim>\<open>-\<close> before a
  negative number.\<close>

definition digit_char :: "nat \<Rightarrow> char" where
  "digit_char d = char_of (48 + d)"

function digits :: "nat \<Rightarrow> string" where
  "digits n = (if n < 10 then [digit_char n] else digits (n div 10) @ [digit_char (n mod 10)])"
  by pat_completeness auto
termination
  by (relation "measure (\<lambda>n. n)") auto

declare digits.simps [simp del]

definition str_int :: "int \<Rightarrow> string" where
  "str_int i = (if i < 0 then CHR ''-'' # digits (nat (- i)) else digits (nat i))"

text \<open>\<^verbatim>\<open>int(x)\<close> for a float: the fractional part is dropped (truncation toward zero).\<close>

definition int_of_float :: "real \<Rightarrow> int" where
  "int_of_float x = (if 0 \<le> x then \<lfloor>x\<rfloor> else \<lceil>x\<rceil>)"

text \<open>\<^verbatim>\<open>f"{x:.1f}"\<close>: the decimal with one fractional digit nearest to \<open>x\<close>, an exact tie
  going to the even digit.\<close>

definition round_half_even :: "real \<Rightarrow> int" where
  "round_half_even x =
     (let q = \<lfloor>x\<rfloor>; f = x - of_int q
      in if f < 1 / 2 then q else if 1 / 2 < f then q + 1 else if even q then q else q + 1)"

definition format_1f :: "real \<Rightarrow> string" where
  "format_1f x =
     (let t = round_half_even (\<bar>x\<bar> * 10)
      in (if x < 0 then ''-'' else '''') @ str_int (t div 10) @ ''.'' @ str_int (t mod 10))"

text \<open>\<^verbatim>\<open>range(count)\<close>: the integers from 0 up to \<open>count - 1\<close>, none when \<open>count \<le> 0\<close>.\<close>

definition py_range :: "int \<Rightarrow> int list" where
  "py_range count = [0..count - 1]"

subsection \<open>The libraries, as a parameter\<close>

text \<open>
  Each random function takes the generator state \<open>'g\<close> and returns its result with the next
  state. \<open>csv_reader_next\<close> is \<^verbatim>\<open>next(csv.reader(f))\<close> on a freshly opened file with the
  given content: the first record, or \<open>None\<close> for \<^verbatim>\<open>StopIteration\<close>. \<open>csv_writerow\<close> is the
  text that \<^verbatim>\<open>csv.writer(f).writerow(row)\<close> writes.
\<close>

record 'g library =
  random_random :: "'g \<Rightarrow> real \<times> 'g"
  random_choice :: "string list \<Rightarrow> 'g \<Rightarrow> string \<times> 'g"
  random_gauss :: "real \<Rightarrow> real \<Rightarrow> 'g \<Rightarrow> real \<times> 'g"
  random_uniform :: "real \<Rightarrow> real \<Rightarrow> 'g \<Rightarrow> real \<times> 'g"
  random_randint :: "int \<Rightarrow> int \<Rightarrow> 'g \<Rightarrow> int \<times> 'g"
  fake_random_element :: "string list \<Rightarrow> 'g \<Rightarrow> string \<times> 'g"
  csv_reader_next :: "string \<Rightarrow> string list option"
  csv_writerow :: "string list \<Rightarrow> string"

subsection \<open>The row generator\<close>

definition sometimes_empty ::
  "'g library \<Rightarrow> ('g \<Rightarrow> string \<times> 'g) \<Rightarrow> real \<Rightarrow> 'g \<Rightarrow> string \<times> 'g" where
  "sometimes_empty L value_func empty_prob g =
     (case random_random L g of (u, g1) \<Rightarrow>
        if u < empty_prob then ('''', g1) else value_func g1)"

text \<open>The first \<^verbatim>\<open>if\<close>/\<^verbatim>\<open>elif\<close>/\<^verbatim>\<open>else\<close> of \<^verbatim>\<open>generate_row\<close>: \<open>(price_min, price_max)\<close>.\<close>

definition price_range :: "string \<Rightarrow> int \<times> int" where
  "price_range district =
     (if district \<in> set (DISTRICT_PRICE_RANGE cao) then (3500, 8000)
      else if district \<in> set (DISTRICT_PRICE_RANGE trung) then (2000, 6000)
      else (1000, 4000))"

text \<open>The second one: the bounds handed to \<^verbatim>\<open>random.uniform\<close> for the area.\<close>

definition area_range :: "string \<Rightarrow> real \<times> real" where
  "area_range district =
     (if district \<in> set (DISTRICT_PRICE_RANGE cao) then (25, 90)
      else if district \<in> set (DISTRICT_PRICE_RANGE trung) then (40, 120)
      else (50, 150))"

text \<open>The local function \<^verbatim>\<open>random_price\<close>, with the two variables it closes over.\<close>

definition random_price :: "'g library \<Rightarrow> int \<Rightarrow> int \<Rightarrow> 'g \<Rightarrow> int \<times> 'g" where
  "random_price L price_min price_max g =
     (let mean = real_of_int (price_min + price_max) / 2;
          std_dev = real_of_int (price_max - price_min) / 6
      in case random_gauss L mean std_dev g of (x, g1) \<Rightarrow>
           (int_of_float (max (real_of_int price_min) (min (real_of_int price_max) x)), g1))"

definition generate_row :: "'g library \<Rightarrow> 'g \<Rightarrow> string list \<times> 'g" where
  "generate_row L g0 =
     (case random_choice L PROPERTY_TYPES g0 of (prop_type, g1) \<Rightarrow>
      case random_random L g1 of (u, g2) \<Rightarrow>
      case (if u < 95 / 100 then (Can_ban, g2) else random_choice L TRANSACTION_TYPES g2)
        of (need, g3) \<Rightarrow>
      let province = CITY in
      case fake_random_element L DISTRICTS g3 of (district, g4) \<Rightarrow>
      case price_range district of (price_min, price_max) \<Rightarrow>
      case sometimes_empty L
             (\<lambda>g. case random_price L price_min price_max g of (p, g') \<Rightarrow> (str_int p, g'))
             (3 / 100) g4 of (price, g5) \<Rightarrow>
      case area_range district of (lo, hi) \<Rightarrow>
      case random_uniform L lo hi g5 of (area_val, g6) \<Rightarrow>
      case sometimes_empty L (\<lambda>g. (format_1f area_val, g)) (5 / 100) g6 of (area, g7) \<Rightarrow>
      case sometimes_empty L (fake_random_element L DIRECTIONS) (4 / 10) g7
        of (direction, g8) \<Rightarrow>
      let floors = '''' in
      case sometimes_empty L
             (\<lambda>g. case random_randint L 1 4 g of (n, g') \<Rightarrow> (str_int n, g'))
             (12 / 100) g8 of (rooms, g9) \<Rightarrow>
      case sometimes_empty L
             (\<lambda>g. case random_randint L 1 3 g of (n, g') \<Rightarrow> (str_int n, g'))
             (12 / 100) g9 of (toilets, g10) \<Rightarrow>
      case sometimes_empty L (fake_random_element L LEGAL_PAPERS) (25 / 100) g10
        of (legal, g11) \<Rightarrow>
      ([prop_type, need, province, district, price, area, direction, floors, rooms,
        toilets, legal], g11))"

subsection \<open>The file appender\<close>

text \<open>The lines the script prints, with the values formatted into them.\<close>

datatype message =
    Warning_header_length_differs
  | Existing_header nat "string list"
  | Generator_header nat "string list"
  | Appended nat string

datatype exception = FileNotFoundError string

record 'g world =
  files :: "string \<rightharpoonup> string"
  stdout :: "message list"
  rng :: 'g

text \<open>The comprehension \<^verbatim>\<open>[generate_row() for _ in range(count)]\<close>: one call for each
  element of the range, in order.\<close>

fun generate_rows :: "'g library \<Rightarrow> int list \<Rightarrow> 'g \<Rightarrow> string list list \<times> 'g" where
  "generate_rows L [] g = ([], g)"
| "generate_rows L (i # is) g =
     (case generate_row L g of (r, g1) \<Rightarrow>
      case generate_rows L is g1 of (rs, g2) \<Rightarrow> (r # rs, g2))"

text \<open>The body of the alignment loop, for a header of \<open>n\<close> columns.\<close>

definition align_row :: "nat \<Rightarrow> string list \<Rightarrow> string list" where
  "align_row n r =
     (if length r < n then r @ replicate (n - length r) ''''
      else if length r > n then take n r
      else r)"

text \<open>The loop itself; \<open>aligned_rows\<close> is the list built so far.\<close>

fun align_loop :: "string list \<Rightarrow> string list list \<Rightarrow> string list list \<Rightarrow> string list list" where
  "align_loop existing_header [] aligned_rows = aligned_rows"
| "align_loop existing_header (r # new_rows) aligned_rows =
     align_loop existing_header new_rows
       (aligned_rows @ [align_row (length existing_header) r])"

text \<open>The writing loop on a file opened for appending; \<open>content\<close> is the file so far.\<close>

fun write_rows :: "'g library \<Rightarrow> string list list \<Rightarrow> string \<Rightarrow> string" where
  "write_rows L [] content = content"
| "write_rows L (row # rows) content = write_rows L rows (content @ csv_writerow L row)"

text \<open>The header in effect after reading: the first record of the file, or \<open>HEADER\<close> when
  the file has none or its first record is empty.\<close>

definition read_existing_header :: "'g library \<Rightarrow> string \<Rightarrow> string list" where
  "read_existing_header L content =
     (let existing_header = (case csv_reader_next L content of None \<Rightarrow> [] | Some h \<Rightarrow> h)
      in if existing_header = [] then HEADER else existing_header)"

definition header_warning :: "string list \<Rightarrow> message list" where
  "header_warning existing_header =
     (if length existing_header \<noteq> length HEADER
      then [Warning_header_length_differs,
            Existing_header (length existing_header) existing_header,
            Generator_header (length HEADER) HEADER]
      else [])"

definition append_synthetic_rows ::
  "'g library \<Rightarrow> string \<Rightarrow> int \<Rightarrow> 'g world \<Rightarrow> (exception + unit) \<times> 'g world" where
  "append_synthetic_rows L target_path count w =
     (case files w target_path of
        None \<Rightarrow> (Inl (FileNotFoundError target_path), w)
      | Some content \<Rightarrow>
          let existing_header = read_existing_header L content;
              out = stdout w @ header_warning existing_header
          in case generate_rows L (py_range count) (rng w) of (new_rows, g') \<Rightarrow>
             let aligned_rows = align_loop existing_header new_rows [];
                 content' = write_rows L aligned_rows content
             in (Inr (),
                 \<lparr>files = (files w)(target_path \<mapsto> content'),
                  stdout = out @ [Appended (length aligned_rows) target_path],
                  rng = g'\<rparr>))"

subsection \<open>Reading the specification\<close>

text \<open>"Parses as an integer": an optional minus sign followed by one or more decimal
  digits, read in base ten.\<close>

definition digit_val :: "char \<Rightarrow> nat option" where
  "digit_val c =
     (let k = (of_char c :: nat) in if 48 \<le> k \<and> k \<le> 57 then Some (k - 48) else None)"

fun parse_digits :: "string \<Rightarrow> nat \<Rightarrow> nat option" where
  "parse_digits [] acc = Some acc"
| "parse_digits (c # cs) acc =
     (case digit_val c of None \<Rightarrow> None | Some d \<Rightarrow> parse_digits cs (10 * acc + d))"

definition parse_int :: "string \<Rightarrow> int option" where
  "parse_int s =
     (case s of
        [] \<Rightarrow> None
      | c # cs \<Rightarrow>
          if c = CHR ''-''
          then (if cs = [] then None else map_option (\<lambda>n. - int n) (parse_digits cs 0))
          else map_option int (parse_digits s 0))"

text \<open>The price as the specification words it: the clamped draw, rounded to the nearest
  integer.\<close>

definition spec_rounded_price :: "'g library \<Rightarrow> int \<Rightarrow> int \<Rightarrow> 'g \<Rightarrow> int \<times> 'g" where
  "spec_rounded_price L price_min price_max g =
     (case random_gauss L (real_of_int (price_min + price_max) / 2)
             (real_of_int (price_max - price_min) / 6) g of (x, g1) \<Rightarrow>
        (round (max (real_of_int price_min) (min (real_of_int price_max) x)), g1))"

text \<open>The tiers a district is listed under.\<close>

definition tiers_of :: "string \<Rightarrow> tier_key list" where
  "tiers_of district = filter (\<lambda>k. district \<in> set (DISTRICT_PRICE_RANGE k)) [cao, trung, thap]"

text \<open>The generator state after one call of \<open>generate_row\<close>.\<close>

definition after_row :: "'g library \<Rightarrow> 'g \<Rightarrow> 'g" where
  "after_row L g = snd (generate_row L g)"

text \<open>
  The value a call of \<^verbatim>\<open>append_synthetic_rows\<close> hands to its caller. The function has no
  \<^verbatim>\<open>return\<close> statement: when it ends normally the caller receives \<^verbatim>\<open>None\<close>, and when it
  raises there is no value.
\<close>

datatype py_value = PyNone | PyInt int

definition return_value :: "exception + unit \<Rightarrow> py_value option" where
  "return_value r = (case r of Inl e \<Rightarrow> None | Inr u \<Rightarrow> Some PyNone)"

text \<open>The contract as the specification words it: the call returns the number of rows
  appended, an integer, which for a count that is not negative is the count.\<close>

definition spec_rows_appended :: "int \<Rightarrow> py_value option" where
  "spec_rows_appended count = Some (PyInt count)"

subsection \<open>A deterministic instance of the libraries\<close>

text \<open>
  For running the model on concrete inputs: the generator state is a tape of numbers, and
  every random function consumes the next one (0 once the tape is exhausted). A choice
  takes the number as an index; \<open>gauss\<close> and \<open>uniform\<close> scale it as Python does. The csv
  functions cover the default dialect for a first line without quoted fields, and
  minimal quoting on output.
\<close>

definition tape_pop :: "real list \<Rightarrow> real \<times> real list" where
  "tape_pop g = (case g of [] \<Rightarrow> (0, []) | x # g' \<Rightarrow> (x, g'))"

definition tape_pick :: "string list \<Rightarrow> real list \<Rightarrow> string \<times> real list" where
  "tape_pick xs g =
     (case tape_pop g of (x, g') \<Rightarrow>
        (if xs = [] then '''' else xs ! (nat \<lfloor>x\<rfloor> mod length xs), g'))"

fun split_on :: "char \<Rightarrow> string \<Rightarrow> string list" where
  "split_on c [] = [[]]"
| "split_on c (x # xs) =
     (if x = c then [] # split_on c xs
      else (case split_on c xs of [] \<Rightarrow> [[x]] | f # fs \<Rightarrow> (x # f) # fs))"

definition plain_reader_next :: "string \<Rightarrow> string list option" where
  "plain_reader_next content =
     (if content = [] then None
      else (let line = takeWhile (\<lambda>c. c \<noteq> CHR 0x0A \<and> c \<noteq> CHR 0x0D) content
            in if line = [] then Some [] else Some (split_on CHR '','' line)))"

definition quote_field :: "string \<Rightarrow> string" where
  "quote_field f =
     (if list_ex (\<lambda>c. c = CHR '','' \<or> c = CHR 0x22 \<or> c = CHR 0x0A \<or> c = CHR 0x0D) f
      then [CHR 0x22] @ concat (map (\<lambda>c. if c = CHR 0x22 then [c, c] else [c]) f) @ [CHR 0x22]
      else f)"

fun join_fields :: "string list \<Rightarrow> string" where
  "join_fields [] = []"
| "join_fields [f] = f"
| "join_fields (f # f' # fs) = f @ CHR '','' # join_fields (f' # fs)"

definition plain_writerow :: "string list \<Rightarrow> string" where
  "plain_writerow row =
     (if row = [''''] then [CHR 0x22, CHR 0x22] else join_fields (map quote_field row))
     @ [CHR 0x0D, CHR 0x0A]"

definition replay :: "real list library" where
  "replay =
     \<lparr>random_random = tape_pop,
      random_choice = tape_pick,
      random_gauss = (\<lambda>mu sigma g. case tape_pop g of (z, g') \<Rightarrow> (mu + z * sigma, g')),
      random_uniform = (\<lambda>a b g. case tape_pop g of (u, g') \<Rightarrow> (a + (b - a) * u, g')),
      random_randint = (\<lambda>a b g. case tape_pop g of (x, g') \<Rightarrow> (a + \<lfloor>x\<rfloor> mod (b - a + 1), g')),
      fake_random_element = tape_pick,
      csv_reader_next = plain_reader_next,
      csv_writerow = plain_writerow\<rparr>"

text \<open>A file system with one file, whose header has three columns, and one whose single
  file has the generator's own header; nothing printed yet, an empty tape.\<close>

definition example_world :: "real list world" where
  "example_world =
     \<lparr>files = [''f.csv'' \<mapsto> ''a,b,c\<newline>''], stdout = [], rng = []\<rparr>"

text \<open>A tape for one call of \<open>generate_row\<close>, and the record it yields: the district drawn
  is the one at index 10, no field is left empty by chance.\<close>

definition example_tape :: "real list" where
  "example_tape = [0, 0, 10, 1 / 2, 9 / 8000, 1 / 4, 1 / 2, 1 / 2, 3, 1 / 2, 2, 1 / 2, 1, 1 / 2, 0]"

definition example_row :: "string list" where
  "example_row =
     [Can_ho_chung_cu, Can_ban, CITY, Quan_1, ''5750'', ''41.2'', Huong_Tay_Bac, '''', ''3'',
      ''2'', Da_co_so]"

section \<open>Properties of the file appender\<close>

subsection \<open>The loops in closed form\<close>

lemma align_loop_acc:
  "align_loop eh rows acc = acc @ map (align_row (length eh)) rows"
  by (induction rows arbitrary: acc) simp_all

lemma write_rows_acc:
  "write_rows L rows content = content @ concat (map (csv_writerow L) rows)"
  by (induction rows arbitrary: content) simp_all

lemma generate_rows_length: "length (fst (generate_rows L is g)) = length is"
proof (induction "is" arbitrary: g)
  case Nil
  show ?case by simp
next
  case (Cons i "is")
  obtain r g1 where r: "generate_row L g = (r, g1)" by (cases "generate_row L g")
  obtain rs g2 where rs: "generate_rows L is g1 = (rs, g2)" by (cases "generate_rows L is g1")
  show ?case using Cons.IH [of g1] r rs by simp
qed

lemma generate_rows_state: "snd (generate_rows L is g) = (after_row L ^^ length is) g"
proof (induction "is" arbitrary: g)
  case Nil
  show ?case by simp
next
  case (Cons i "is")
  obtain r g1 where r: "generate_row L g = (r, g1)" by (cases "generate_row L g")
  obtain rs g2 where rs: "generate_rows L is g1 = (rs, g2)" by (cases "generate_rows L is g1")
  have "g2 = (after_row L ^^ length is) g1" using Cons.IH [of g1] rs by simp
  moreover have "g1 = after_row L g" using r by (simp add: after_row_def)
  ultimately show ?case using r rs by (simp add: funpow_swap1)
qed

lemma length_py_range: "length (py_range count) = nat count"
  by (simp add: py_range_def)

lemma py_range_nonpos: "count \<le> 0 \<Longrightarrow> py_range count = []"
  by (simp add: py_range_def)

subsection \<open>The whole operation on an existing file\<close>

lemma append_existing:
  assumes "files w target_path = Some content"
  shows "append_synthetic_rows L target_path count w =
    (Inr (),
     \<lparr>files = (files w)(target_path \<mapsto>
         content @ concat (map (csv_writerow L)
                    (map (align_row (length (read_existing_header L content)))
                         (fst (generate_rows L (py_range count) (rng w)))))),
      stdout = stdout w @ header_warning (read_existing_header L content)
                 @ [Appended (nat count) target_path],
      rng = (after_row L ^^ nat count) (rng w)\<rparr>)"
proof -
  obtain rows g' where g: "generate_rows L (py_range count) (rng w) = (rows, g')"
    by (cases "generate_rows L (py_range count) (rng w)")
  have len: "length rows = nat count"
    using generate_rows_length [of L "py_range count" "rng w"] g by (simp add: length_py_range)
  have st: "g' = (after_row L ^^ nat count) (rng w)"
    using generate_rows_state [of L "py_range count" "rng w"] g by (simp add: length_py_range)
  show ?thesis
    using assms g len st
    by (simp add: append_synthetic_rows_def Let_def align_loop_acc write_rows_acc)
qed

lemma example_file: "files example_world ''f.csv'' = Some ''a,b,c\<newline>''"
  by (simp add: example_world_def)

lemma example_header: "read_existing_header replay ''a,b,c\<newline>'' = [''a'', ''b'', ''c'']"
  by (simp add: read_existing_header_def replay_def plain_reader_next_def)

lemma length_HEADER: "length HEADER = 11"
  by (simp add: HEADER_def)

subsection \<open>Claims\<close>

text \<open>
  C1, as the specification words it, does not hold: the call does not return the number of
  rows appended. On the example file with a count of 2 it ends normally and the caller
  receives \<^verbatim>\<open>None\<close>, not the integer 2.
\<close>

theorem append_returns_none_counterexample:
  "files example_world ''f.csv'' = Some ''a,b,c\<newline>'' \<and> (0::int) \<le> 2
   \<and> return_value (fst (append_synthetic_rows replay ''f.csv'' 2 example_world)) = Some PyNone
   \<and> return_value (fst (append_synthetic_rows replay ''f.csv'' 2 example_world))
       \<noteq> spec_rows_appended 2"
  by (simp add: append_existing [OF example_file] example_file return_value_def
        spec_rows_appended_def)

text \<open>
  C1, amended. When the target path names an existing file and \<open>count\<close> is not negative,
  the operation ends normally and returns no value (\<^verbatim>\<open>None\<close>); the row generator is called
  exactly \<open>count\<close> times (the range has \<open>count\<close> elements, \<open>count\<close> rows come back, and the
  generator state at the end is the state after \<open>count\<close> successive calls); these rows,
  aligned to the header in effect, are appended to the file; and the number of rows
  appended is printed, not returned: the last line of output is
  \<^verbatim>\<open>Appended <n> synthetic rows to <path>\<close> with \<open>n\<close> equal to \<open>count\<close>.
\<close>

theorem append_prints_count:
  assumes "files w target_path = Some content" and "0 \<le> count"
  shows "\<exists>w' new_rows.
           append_synthetic_rows L target_path count w = (Inr (), w')
         \<and> return_value (fst (append_synthetic_rows L target_path count w)) = Some PyNone
         \<and> generate_rows L (py_range count) (rng w) = (new_rows, rng w')
         \<and> int (length (py_range count)) = count
         \<and> int (length new_rows) = count
         \<and> rng w' = (after_row L ^^ nat count) (rng w)
         \<and> files w' target_path = Some (content @ concat (map (csv_writerow L)
              (map (align_row (length (read_existing_header L content))) new_rows)))
         \<and> last (stdout w') = Appended (length new_rows) target_path
         \<and> last (stdout w') = Appended (nat count) target_path"
proof -
  obtain rows g' where g: "generate_rows L (py_range count) (rng w) = (rows, g')"
    by (cases "generate_rows L (py_range count) (rng w)")
  have len: "length rows = nat count"
    using generate_rows_length [of L "py_range count" "rng w"] g by (simp add: length_py_range)
  have st: "g' = (after_row L ^^ nat count) (rng w)"
    using generate_rows_state [of L "py_range count" "rng w"] g by (simp add: length_py_range)
  show ?thesis
    using assms(2) g len st
    by (simp add: append_existing [OF assms(1)] length_py_range return_value_def)
qed

theorem append_prints_count_witness:
  "files example_world ''f.csv'' = Some ''a,b,c\<newline>'' \<and> (0::int) \<le> 2
   \<and> (\<exists>w' (new_rows :: string list list).
         append_synthetic_rows replay ''f.csv'' 2 example_world = (Inr (), w')
       \<and> return_value (fst (append_synthetic_rows replay ''f.csv'' 2 example_world))
           = Some PyNone
       \<and> int (length new_rows) = 2
       \<and> files w' ''f.csv'' = Some (''a,b,c\<newline>'' @ concat (map (csv_writerow replay)
            (map (align_row 3) new_rows)))
       \<and> last (stdout w') = Appended 2 ''f.csv'')"
proof -
  have h: "(0::int) \<le> 2" by simp
  have hdr: "length (read_existing_header replay ''a,b,c\<newline>'') = 3"
    by (simp add: example_header)
  obtain w' new_rows where
    a: "append_synthetic_rows replay ''f.csv'' 2 example_world = (Inr (), w')"
    and b: "return_value (fst (append_synthetic_rows replay ''f.csv'' 2 example_world))
          = Some PyNone"
    and l: "int (length new_rows) = 2"
    and f: "files w' ''f.csv'' = Some (''a,b,c\<newline>'' @ concat (map (csv_writerow replay)
           (map (align_row 3) new_rows)))"
    and c: "last (stdout w') = Appended (nat 2) ''f.csv''"
    using append_prints_count [OF example_file h, of replay, unfolded hdr] by blast
  have c': "last (stdout w') = Appended 2 ''f.csv''" using c by simp
  have "\<exists>w' (new_rows :: string list list).
         append_synthetic_rows replay ''f.csv'' 2 example_world = (Inr (), w')
       \<and> return_value (fst (append_synthetic_rows replay ''f.csv'' 2 example_world))
           = Some PyNone
       \<and> int (length new_rows) = 2
       \<and> files w' ''f.csv'' = Some (''a,b,c\<newline>'' @ concat (map (csv_writerow replay)
            (map (align_row 3) new_rows)))
       \<and> last (stdout w') = Appended 2 ''f.csv''"
    using a b l f c' by blast
  then show ?thesis using example_file by simp
qed

text \<open>
  C2. When the target path names no file, the operation raises \<^verbatim>\<open>FileNotFoundError\<close> and
  the state in which it is raised is the state before the call: no row was generated (the
  generator state is unchanged), nothing was printed, no file was created at the path and
  no file was changed.
\<close>

theorem missing_file_fails_first:
  "files w target_path = None \<Longrightarrow>
   append_synthetic_rows L target_path count w = (Inl (FileNotFoundError target_path), w)"
  by (simp add: append_synthetic_rows_def)

theorem missing_file_fails_first_witness:
  "files example_world ''g.csv'' = None
   \<and> append_synthetic_rows replay ''g.csv'' 5 example_world
       = (Inl (FileNotFoundError ''g.csv''), example_world)"
proof -
  have h: "files example_world ''g.csv'' = None" by (simp add: example_world_def)
  show ?thesis using h missing_file_fails_first [OF h, of replay 5] by simp
qed

text \<open>
  C3. Aligning a record \<open>r\<close> to a header of \<open>n\<close> columns: a shorter record is padded on the
  right with empty strings, a longer one keeps its first \<open>n\<close> fields, one of length \<open>n\<close> is
  unchanged; the result always has \<open>n\<close> fields, and every field that remains stays at its
  position. The loop of the appender applies this to each generated record, and two
  headers of the same length give the same alignment whatever their column names.
\<close>

theorem align_row_positional:
  "(length r < n \<longrightarrow> align_row n r = r @ replicate (n - length r) '''')
   \<and> (n < length r \<longrightarrow> align_row n r = take n r)
   \<and> (length r = n \<longrightarrow> align_row n r = r)
   \<and> length (align_row n r) = n
   \<and> (\<forall>i < min n (length r). align_row n r ! i = r ! i)
   \<and> align_loop existing_header new_rows [] = map (align_row (length existing_header)) new_rows
   \<and> (length other_header = length existing_header \<longrightarrow>
        align_loop other_header new_rows [] = align_loop existing_header new_rows [])"
  by (simp add: align_row_def align_loop_acc nth_append)

theorem align_row_positional_witness:
  "length [''a'', ''b''] < (3::nat) \<and> align_row 3 [''a'', ''b''] = [''a'', ''b'', '''']
   \<and> (1::nat) < length [''a'', ''b''] \<and> align_row 1 [''a'', ''b''] = [''a'']
   \<and> length [''a'', ''b''] = (2::nat) \<and> align_row 2 [''a'', ''b''] = [''a'', ''b'']
   \<and> (0::nat) < min 1 (length [''a'', ''b'']) \<and> align_row 1 [''a'', ''b''] ! 0 = ''a''
   \<and> length [''x'', ''y'', ''z''] = length [''p'', ''q'', ''r'']
   \<and> align_loop [''x'', ''y'', ''z''] [[''a'', ''b'']] []
       = align_loop [''p'', ''q'', ''r''] [[''a'', ''b'']] []"
proof -
  have pad: "align_row 3 [''a'', ''b''] = [''a'', ''b'', '''']"
    using align_row_positional [where r = "[''a'', ''b'']" and n = 3]
    by (simp add: numeral_3_eq_3)
  have cut: "align_row 1 [''a'', ''b''] = [''a'']"
    using align_row_positional [where r = "[''a'', ''b'']" and n = 1] by simp
  have same: "align_row 2 [''a'', ''b''] = [''a'', ''b'']"
    using align_row_positional [where r = "[''a'', ''b'']" and n = 2] by simp
  have names: "align_loop [''x'', ''y'', ''z''] [[''a'', ''b'']] []
             = align_loop [''p'', ''q'', ''r''] [[''a'', ''b'']] []"
    using align_row_positional [where other_header = "[''x'', ''y'', ''z'']"
        and existing_header = "[''p'', ''q'', ''r'']" and new_rows = "[[''a'', ''b'']]"]
    by simp
  show ?thesis using pad cut same names by simp
qed

text \<open>
  C8. On an existing file the operation never fails, whatever the header. When the header
  in effect has a length other than that of \<open>HEADER\<close> (11), three lines are printed before
  the rows are generated, a warning and the two headers with their lengths, and the
  operation goes on: the generated rows, aligned to the header in effect, are appended
  and the count is reported.
\<close>

theorem header_length_mismatch_only_warns:
  assumes "files w target_path = Some content"
  shows "\<exists>w'. append_synthetic_rows L target_path count w = (Inr (), w')
     \<and> (length (read_existing_header L content) \<noteq> length HEADER \<longrightarrow>
          stdout w' = stdout w @
            [Warning_header_length_differs,
             Existing_header (length (read_existing_header L content))
               (read_existing_header L content),
             Generator_header 11 HEADER,
             Appended (nat count) target_path])
     \<and> files w' target_path = Some (content @ concat (map (csv_writerow L)
          (map (align_row (length (read_existing_header L content)))
               (fst (generate_rows L (py_range count) (rng w))))))
     \<and> length (fst (generate_rows L (py_range count) (rng w))) = nat count"
  by (simp add: append_existing [OF assms] header_warning_def generate_rows_length
        length_py_range length_HEADER)

theorem header_length_mismatch_only_warns_witness:
  "files example_world ''f.csv'' = Some ''a,b,c\<newline>''
   \<and> length (read_existing_header replay ''a,b,c\<newline>'') \<noteq> length HEADER
   \<and> (\<exists>w'. append_synthetic_rows replay ''f.csv'' 2 example_world = (Inr (), w')
         \<and> stdout w' = [Warning_header_length_differs, Existing_header 3 [''a'', ''b'', ''c''],
                         Generator_header 11 HEADER, Appended 2 ''f.csv''])"
proof -
  have l: "length (read_existing_header replay ''a,b,c\<newline>'') \<noteq> length HEADER"
    by (simp add: example_header length_HEADER)
  have s: "stdout example_world = []" by (simp add: example_world_def)
  show ?thesis
    using header_length_mismatch_only_warns [OF example_file, of replay 2] l s example_file
    by (auto simp add: example_header)
qed

text \<open>
  C9. After a successful call on an existing file, the content the file had before is a
  prefix of its content after: the header line and the earlier lines are as they were, and
  what is new comes after them. No other file is touched.
\<close>

theorem append_keeps_prior_content:
  assumes "files w target_path = Some content"
    and "append_synthetic_rows L target_path count w = (Inr u, w')"
  shows "(\<exists>new_lines. files w' target_path = Some (content @ new_lines))
       \<and> prefix content (the (files w' target_path))
       \<and> (\<forall>p. p \<noteq> target_path \<longrightarrow> files w' p = files w p)"
  using assms(2) by (auto simp add: append_existing [OF assms(1)])

theorem append_keeps_prior_content_witness:
  "files example_world ''f.csv'' = Some ''a,b,c\<newline>''
   \<and> (\<exists>w'. append_synthetic_rows replay ''f.csv'' 2 example_world = (Inr (), w')
         \<and> prefix ''a,b,c\<newline>'' (the (files w' ''f.csv''))
         \<and> files w' ''g.csv'' = files example_world ''g.csv'')"
proof -
  obtain w' where w': "append_synthetic_rows replay ''f.csv'' 2 example_world = (Inr (), w')"
    by (simp add: append_existing [OF example_file])
  show ?thesis
    using append_keeps_prior_content [OF example_file w'] w' example_file by simp
qed

text \<open>
  C10. On an existing file, a count of zero or less does not fail: no row is generated
  (the generator state is unchanged), the files are exactly as before, and the line
  reporting the count says 0. The only change is to the output: the header warning, when
  the header in effect has not 11 columns, and the report.
\<close>

theorem append_nonpositive_count:
  assumes "files w target_path = Some content" and "count \<le> 0"
  shows "append_synthetic_rows L target_path count w =
           (Inr (), w\<lparr>stdout := stdout w @ header_warning (read_existing_header L content)
                                  @ [Appended 0 target_path]\<rparr>)
       \<and> generate_rows L (py_range count) (rng w) = ([], rng w)
       \<and> files (snd (append_synthetic_rows L target_path count w)) = files w"
  using assms by (simp add: append_existing [OF assms(1)] py_range_nonpos map_upd_triv)

theorem append_nonpositive_count_witness:
  "files example_world ''f.csv'' = Some ''a,b,c\<newline>'' \<and> (- 3::int) \<le> 0
   \<and> append_synthetic_rows replay ''f.csv'' (- 3) example_world =
       (Inr (), example_world\<lparr>stdout :=
          [Warning_header_length_differs, Existing_header 3 [''a'', ''b'', ''c''],
           Generator_header 11 HEADER, Appended 0 ''f.csv'']\<rparr>)"
proof -
  have h: "(- 3::int) \<le> 0" by simp
  have s: "stdout example_world = []" by (simp add: example_world_def)
  show ?thesis
    using append_nonpositive_count [OF example_file h, of replay] example_file s
    by (simp add: example_header header_warning_def length_HEADER)
qed

section \<open>Properties of the row generator\<close>

subsection \<open>Decimal numerals\<close>

lemma digit_val_digit_char: "d < 10 \<Longrightarrow> digit_val (digit_char d) = Some d"
  by (simp add: digit_val_def digit_char_def)

lemma digit_char_not_minus: "d < 10 \<Longrightarrow> digit_char d \<noteq> CHR ''-''"
proof
  assume d: "d < 10" and e: "digit_char d = CHR ''-''"
  from e have "digit_val (digit_char d) = digit_val CHR ''-''" by simp
  with d show False by (simp add: digit_val_digit_char) (simp add: digit_val_def)
qed

lemma parse_digits_append:
  "parse_digits (xs @ ys) acc =
     (case parse_digits xs acc of None \<Rightarrow> None | Some a \<Rightarrow> parse_digits ys a)"
  by (induction xs arbitrary: acc) (simp_all split: option.splits)

lemma parse_digits_digits: "parse_digits (digits n) 0 = Some n"
proof (induction n rule: digits.induct)
  case (1 n)
  show ?case
  proof (cases "n < 10")
    case True
    then show ?thesis by (simp add: digits.simps [of n] digit_val_digit_char)
  next
    case False
    then have "parse_digits (digits (n div 10)) 0 = Some (n div 10)" using "1.IH" by simp
    with False show ?thesis
      by (simp add: digits.simps [of n] parse_digits_append digit_val_digit_char)
  qed
qed

lemma digits_first: "\<exists>d cs. d < 10 \<and> digits n = digit_char d # cs"
proof (induction n rule: digits.induct)
  case (1 n)
  show ?case
  proof (cases "n < 10")
    case True
    then show ?thesis by (auto simp add: digits.simps [of n])
  next
    case False
    then obtain d cs where "d < 10" "digits (n div 10) = digit_char d # cs"
      using "1.IH" by blast
    with False show ?thesis by (auto simp add: digits.simps [of n])
  qed
qed

lemma str_int_nonempty: "str_int i \<noteq> ''''"
  using digits_first [of "nat i"] digits_first [of "nat (- i)"]
  by (auto simp add: str_int_def)

lemma parse_int_str_int: "parse_int (str_int i) = Some i"
proof (cases "i < 0")
  case True
  obtain d cs where "digits (nat (- i)) = digit_char d # cs"
    using digits_first [of "nat (- i)"] by blast
  then have "digits (nat (- i)) \<noteq> []" by simp
  with True show ?thesis
    by (simp add: parse_int_def str_int_def parse_digits_digits)
next
  case False
  obtain d cs where d: "d < 10" "digits (nat i) = digit_char d # cs"
    using digits_first [of "nat i"] by blast
  have "parse_digits (digit_char d # cs) 0 = Some (nat i)"
    using parse_digits_digits [of "nat i"] d by simp
  with False d show ?thesis
    by (simp add: parse_int_def str_int_def digit_char_not_minus del: parse_digits.simps)
qed

subsection \<open>Prices\<close>

lemma price_range_ordered: "fst (price_range d) \<le> snd (price_range d)"
  by (simp add: price_range_def)

lemma price_range_positive: "0 < fst (price_range d)"
  by (simp add: price_range_def)

lemma int_of_float_clamped:
  assumes "price_min \<le> price_max"
  shows "price_min \<le> int_of_float (max (real_of_int price_min) (min (real_of_int price_max) x))
       \<and> int_of_float (max (real_of_int price_min) (min (real_of_int price_max) x)) \<le> price_max"
proof -
  let ?v = "max (real_of_int price_min) (min (real_of_int price_max) x)"
  have lo: "real_of_int price_min \<le> ?v" by simp
  have hi: "?v \<le> real_of_int price_max" using assms by simp
  have "price_min \<le> \<lfloor>?v\<rfloor>" using lo by (simp only: le_floor_iff)
  moreover have "\<lfloor>?v\<rfloor> \<le> price_max" using hi by (metis floor_mono floor_of_int)
  moreover have "price_min \<le> \<lceil>?v\<rceil>" using lo by (metis ceiling_mono ceiling_of_int)
  moreover have "\<lceil>?v\<rceil> \<le> price_max" using hi by (simp only: ceiling_le_iff)
  ultimately show ?thesis by (simp only: int_of_float_def split: if_splits) simp
qed

lemma random_price_bounds:
  "price_min \<le> price_max \<Longrightarrow>
   price_min \<le> fst (random_price L price_min price_max g)
   \<and> fst (random_price L price_min price_max g) \<le> price_max"
  using int_of_float_clamped [of price_min price_max]
  by (simp add: random_price_def Let_def split: prod.splits)

lemma random_price_floor:
  assumes "0 \<le> price_min"
    and "random_gauss L (real_of_int (price_min + price_max) / 2)
           (real_of_int (price_max - price_min) / 6) g = (x, g1)"
  shows "random_price L price_min price_max g =
           (\<lfloor>max (real_of_int price_min) (min (real_of_int price_max) x)\<rfloor>, g1)"
proof -
  have "0 \<le> max (real_of_int price_min) (min (real_of_int price_max) x)"
    using assms(1) by simp
  then show ?thesis using assms(2) by (simp add: random_price_def Let_def int_of_float_def)
qed

subsection \<open>The shape of a generated record\<close>

lemma sometimes_empty_cases:
  "sometimes_empty L value_func empty_prob g = (s, g') \<Longrightarrow>
   s = '''' \<or> (\<exists>g1. value_func g1 = (s, g'))"
  by (auto simp add: sometimes_empty_def split: prod.splits if_splits)

lemma generate_row_shape:
  "\<exists>prop_type need district price area direction rooms toilets legal g4 g5.
     generate_row L g =
       ([prop_type, need, CITY, district, price, area, direction, '''', rooms, toilets, legal],
        snd (generate_row L g))
   \<and> sometimes_empty L
        (\<lambda>g. case random_price L (fst (price_range district)) (snd (price_range district)) g
              of (p, g') \<Rightarrow> (str_int p, g'))
        (3 / 100) g4 = (price, g5)"
  by (simp add: generate_row_def Let_def split: prod.splits) blast

lemma generate_row_price:
  assumes "generate_row L g = (row, g')" and "row ! 4 \<noteq> ''''"
  shows "\<exists>g4. row ! 4 = str_int (fst (random_price L (fst (price_range (row ! 3)))
                                        (snd (price_range (row ! 3))) g4))"
proof -
  obtain prop_type need district price area direction rooms toilets legal g4 g5 where
    row: "generate_row L g =
       ([prop_type, need, CITY, district, price, area, direction, '''', rooms, toilets, legal],
        snd (generate_row L g))"
    and price: "sometimes_empty L
        (\<lambda>g. case random_price L (fst (price_range district)) (snd (price_range district)) g
              of (p, g') \<Rightarrow> (str_int p, g'))
        (3 / 100) g4 = (price, g5)"
    using generate_row_shape [of L g] by blast
  from row assms(1) have r: "row ! 3 = district" "row ! 4 = price" by auto
  with assms(2) have "price \<noteq> ''''" by simp
  with sometimes_empty_cases [OF price] obtain g6 where
    "(case random_price L (fst (price_range district)) (snd (price_range district)) g6
        of (p, g') \<Rightarrow> (str_int p, g')) = (price, g5)"
    by blast
  then have "price = str_int (fst (random_price L (fst (price_range district))
                                      (snd (price_range district)) g6))"
    by (auto split: prod.splits)
  with r show ?thesis by blast
qed

subsection \<open>Evaluating the example\<close>

lemmas district_defs =
  Quan_1_def Quan_2_def Quan_3_def Quan_4_def Quan_5_def Quan_7_def Quan_9_def Quan_10_def
  Quan_11_def Quan_12_def Quan_Tan_Binh_def Quan_Tan_Phu_def Quan_Thu_Duc_def
  Huyen_Binh_Chanh_def Quan_Binh_Tan_def Quan_Binh_Thanh_def Quan_Phu_Nhuan_def
  Huyen_Nha_Be_def Huyen_Hoc_Mon_def

lemma str_int_examples:
  "str_int 5750 = ''5750''" "str_int 3 = ''3''" "str_int 2 = ''2''"
  by (simp_all add: str_int_def digits.simps digit_char_def char_of_def bit_0)

lemma format_1f_example: "format_1f (165 / 4) = ''41.2''"
  by (simp add: format_1f_def round_half_even_def Let_def str_int_def digits.simps
        digit_char_def char_of_def bit_0)

lemma price_range_Quan_1: "price_range Quan_1 = (3500, 8000)"
  by (simp add: price_range_def)

lemma area_range_Quan_1: "area_range Quan_1 = (25, 90)"
  by (simp add: area_range_def)

lemma example_generate_row: "generate_row replay example_tape = (example_row, [])"
  by (simp add: generate_row_def example_tape_def example_row_def replay_def tape_pop_def
        tape_pick_def sometimes_empty_def random_price_def int_of_float_def Let_def
        PROPERTY_TYPES_def DISTRICTS_def DIRECTIONS_def LEGAL_PAPERS_def
        price_range_Quan_1 area_range_Quan_1 str_int_examples format_1f_example)

lemma example_row_price: "example_row ! 4 \<noteq> ''''" "example_row ! 4 = ''5750''"
  "example_row ! 3 = Quan_1"
  by (simp_all add: example_row_def)

subsection \<open>Claims\<close>

text \<open>
  C4. In every record that \<open>generate_row\<close> returns, a price field that is not empty reads
  as a decimal integer between \<open>price_min\<close> and \<open>price_max\<close> of the tier of the record's
  district (field 4 is the price, field 3 the district, counting from 0); in particular,
  when the district is \<^verbatim>\<open>Quan 1\<close> such a price lies between 3500 and 8000.
\<close>

theorem price_within_tier_range:
  assumes "generate_row L g = (row, g')" and "row ! 4 \<noteq> ''''"
  shows "\<exists>k. parse_int (row ! 4) = Some k
           \<and> fst (price_range (row ! 3)) \<le> k \<and> k \<le> snd (price_range (row ! 3))
           \<and> (row ! 3 = Quan_1 \<longrightarrow> 3500 \<le> k \<and> k \<le> 8000)"
proof -
  obtain g4 where p: "row ! 4 = str_int (fst (random_price L (fst (price_range (row ! 3)))
                                               (snd (price_range (row ! 3))) g4))"
    using generate_row_price [OF assms] by blast
  define k where "k = fst (random_price L (fst (price_range (row ! 3)))
                             (snd (price_range (row ! 3))) g4)"
  have b: "fst (price_range (row ! 3)) \<le> k \<and> k \<le> snd (price_range (row ! 3))"
    unfolding k_def by (rule random_price_bounds [OF price_range_ordered])
  have "parse_int (row ! 4) = Some k" using p by (simp add: k_def parse_int_str_int)
  moreover have "row ! 3 = Quan_1 \<longrightarrow> 3500 \<le> k \<and> k \<le> 8000"
    using b by (auto simp add: price_range_Quan_1)
  ultimately show ?thesis using b by blast
qed

theorem price_within_tier_range_witness:
  "generate_row replay example_tape = (example_row, []) \<and> example_row ! 4 \<noteq> ''''
   \<and> example_row ! 3 = Quan_1
   \<and> (\<exists>k. parse_int ''5750'' = Some k \<and> 3500 \<le> k \<and> k \<le> 8000)"
proof -
  obtain k where "parse_int (example_row ! 4) = Some k"
    "example_row ! 3 = Quan_1 \<longrightarrow> 3500 \<le> k \<and> k \<le> 8000"
    using price_within_tier_range [OF example_generate_row example_row_price(1)] by blast
  then have "\<exists>k. parse_int ''5750'' = Some k \<and> 3500 \<le> k \<and> k \<le> 8000"
    by (auto simp add: example_row_price)
  then show ?thesis using example_generate_row example_row_price by simp
qed

text \<open>
  C5, as the specification words it, does not hold: the clamped draw is not rounded to
  the nearest integer. In the medium tier (2000 to 6000; mean 4000, standard deviation
  2000/3) a draw of 4000.75 gives the price 4000, where rounding gives 4001.
\<close>

theorem price_rounding_counterexample:
  "price_range Quan_2 = (2000, 6000)
   \<and> random_gauss replay (real_of_int (2000 + 6000) / 2) (real_of_int (6000 - 2000) / 6)
       [9 / 8000] = (16003 / 4, [])
   \<and> random_price replay 2000 6000 [9 / 8000] = (4000, [])
   \<and> spec_rounded_price replay 2000 6000 [9 / 8000] = (4001, [])"
  by (simp add: price_range_def district_defs random_price_def spec_rounded_price_def
        replay_def tape_pop_def int_of_float_def round_def)

text \<open>
  C5, amended. A price field that is not empty is computed by drawing a Gaussian with mean
  the midpoint of \<open>(price_min, price_max)\<close> and standard deviation
  \<open>(price_max - price_min) / 6\<close>, clamping the draw to \<open>[price_min, price_max]\<close>, and
  dropping the fractional part of the clamped value: the price is the integer \<open>k\<close> with
  \<open>k \<le> clamped < k + 1\<close>, written in decimal.
\<close>

theorem price_truncates_clamped_draw:
  assumes "generate_row L g = (row, g')" and "row ! 4 \<noteq> ''''"
    and "price_range (row ! 3) = (price_min, price_max)"
  shows "\<exists>g4 x g5 k.
           random_gauss L (real_of_int (price_min + price_max) / 2)
             (real_of_int (price_max - price_min) / 6) g4 = (x, g5)
         \<and> real_of_int k \<le> max (real_of_int price_min) (min (real_of_int price_max) x)
         \<and> max (real_of_int price_min) (min (real_of_int price_max) x) < real_of_int k + 1
         \<and> row ! 4 = str_int k"
proof -
  obtain g4 where p: "row ! 4 = str_int (fst (random_price L price_min price_max g4))"
    using generate_row_price [OF assms(1,2)] assms(3) by auto
  obtain x g5 where d: "random_gauss L (real_of_int (price_min + price_max) / 2)
             (real_of_int (price_max - price_min) / 6) g4 = (x, g5)"
    by (cases "random_gauss L (real_of_int (price_min + price_max) / 2)
             (real_of_int (price_max - price_min) / 6) g4")
  let ?v = "max (real_of_int price_min) (min (real_of_int price_max) x)"
  have "0 \<le> price_min" using price_range_positive [of "row ! 3"] assms(3) by simp
  then have "random_price L price_min price_max g4 = (\<lfloor>?v\<rfloor>, g5)"
    using d by (rule random_price_floor)
  with p have "row ! 4 = str_int \<lfloor>?v\<rfloor>" by simp
  moreover have "real_of_int \<lfloor>?v\<rfloor> \<le> ?v" by (rule of_int_floor_le)
  moreover have "?v < real_of_int \<lfloor>?v\<rfloor> + 1" by linarith
  ultimately show ?thesis using d by blast
qed

theorem price_truncates_clamped_draw_witness:
  "generate_row replay example_tape = (example_row, []) \<and> example_row ! 4 \<noteq> ''''
   \<and> price_range (example_row ! 3) = (3500, 8000)
   \<and> (\<exists>g4 x g5 k.
         random_gauss replay (real_of_int (3500 + 8000) / 2) (real_of_int (8000 - 3500) / 6) g4
           = (x, g5)
       \<and> real_of_int k \<le> max (real_of_int 3500) (min (real_of_int 8000) x)
       \<and> max (real_of_int 3500) (min (real_of_int 8000) x) < real_of_int k + 1
       \<and> example_row ! 4 = str_int k)"
proof -
  have r: "price_range (example_row ! 3) = (3500, 8000)"
    by (simp add: example_row_price price_range_Quan_1)
  show ?thesis
    using example_generate_row example_row_price(1) r
      price_truncates_clamped_draw [OF example_generate_row example_row_price(1) r]
    by (intro conjI)
qed

text \<open>
  C6. Every record that \<open>generate_row\<close> returns has exactly 11 fields, each of them a
  string (the type of the list: no field can be absent), and the field at index 7, the
  floor count, is the empty string.
\<close>

theorem generate_row_eleven_fields:
  "length (fst (generate_row L g)) = 11 \<and> fst (generate_row L g) ! 7 = ''''"
  by (simp add: generate_row_def Let_def split: prod.splits)

text \<open>
  C7. Every district of \<open>DISTRICTS\<close> is listed under exactly one key of
  \<open>DISTRICT_PRICE_RANGE\<close>, the three lists have no district in common, and the ranges
  follow the lookup: a district of the first list gets the high band, one of the second
  list the medium band, and any district in neither gets the price and area ranges of
  the low band.
\<close>

theorem districts_resolve_to_one_tier:
  "(\<forall>d \<in> set DISTRICTS. length (tiers_of d) = 1)
   \<and> set (DISTRICT_PRICE_RANGE cao) \<inter> set (DISTRICT_PRICE_RANGE trung) = {}
   \<and> set (DISTRICT_PRICE_RANGE cao) \<inter> set (DISTRICT_PRICE_RANGE thap) = {}
   \<and> set (DISTRICT_PRICE_RANGE trung) \<inter> set (DISTRICT_PRICE_RANGE thap) = {}
   \<and> (district \<in> set (DISTRICT_PRICE_RANGE cao) \<longrightarrow>
        price_range district = (3500, 8000) \<and> area_range district = (25, 90))
   \<and> (district \<in> set (DISTRICT_PRICE_RANGE trung) \<longrightarrow>
        price_range district = (2000, 6000) \<and> area_range district = (40, 120))
   \<and> (district \<notin> set (DISTRICT_PRICE_RANGE cao) \<and> district \<notin> set (DISTRICT_PRICE_RANGE trung) \<longrightarrow>
        price_range district = (1000, 4000) \<and> area_range district = (50, 150))"
proof -
  have one: "\<forall>d \<in> set DISTRICTS. length (tiers_of d) = 1"
    by (simp add: DISTRICTS_def tiers_of_def district_defs)
  have ct: "set (DISTRICT_PRICE_RANGE cao) \<inter> set (DISTRICT_PRICE_RANGE trung) = {}"
    by (simp add: district_defs)
  have cl: "set (DISTRICT_PRICE_RANGE cao) \<inter> set (DISTRICT_PRICE_RANGE thap) = {}"
    by (simp add: district_defs)
  have tl: "set (DISTRICT_PRICE_RANGE trung) \<inter> set (DISTRICT_PRICE_RANGE thap) = {}"
    by (simp add: district_defs)
  have hi: "district \<in> set (DISTRICT_PRICE_RANGE cao) \<longrightarrow>
        price_range district = (3500, 8000) \<and> area_range district = (25, 90)"
    by (simp add: price_range_def area_range_def)
  have mid: "district \<in> set (DISTRICT_PRICE_RANGE trung) \<longrightarrow>
        price_range district = (2000, 6000) \<and> area_range district = (40, 120)"
    using ct by (auto simp add: price_range_def area_range_def)
  have lo: "district \<notin> set (DISTRICT_PRICE_RANGE cao) \<and> district \<notin> set (DISTRICT_PRICE_RANGE trung) \<longrightarrow>
        price_range district = (1000, 4000) \<and> area_range district = (50, 150)"
    by (simp add: price_range_def area_range_def)
  show ?thesis using one ct cl tl hi mid lo by (intro conjI)
qed

theorem districts_resolve_to_one_tier_witness:
  "Quan_1 \<in> set DISTRICTS \<and> length (tiers_of Quan_1) = 1
   \<and> Quan_1 \<in> set (DISTRICT_PRICE_RANGE cao) \<and> price_range Quan_1 = (3500, 8000)
   \<and> Quan_2 \<in> set (DISTRICT_PRICE_RANGE trung) \<and> price_range Quan_2 = (2000, 6000)
   \<and> ''Ha Noi'' \<notin> set (DISTRICT_PRICE_RANGE cao) \<and> ''Ha Noi'' \<notin> set (DISTRICT_PRICE_RANGE trung)
   \<and> price_range ''Ha Noi'' = (1000, 4000) \<and> area_range ''Ha Noi'' = (50, 150)"
proof -
  have a: "Quan_1 \<in> set DISTRICTS" by (simp add: DISTRICTS_def)
  have b: "Quan_1 \<in> set (DISTRICT_PRICE_RANGE cao)" by simp
  have c: "Quan_2 \<in> set (DISTRICT_PRICE_RANGE trung)" by simp
  have d: "''Ha Noi'' \<notin> set (DISTRICT_PRICE_RANGE cao)"
    "''Ha Noi'' \<notin> set (DISTRICT_PRICE_RANGE trung)"
    by (simp_all add: district_defs)
  show ?thesis
    using a b c d districts_resolve_to_one_tier [of Quan_1]
      districts_resolve_to_one_tier [of Quan_2] districts_resolve_to_one_tier [of "''Ha Noi''"]
    by simp
qed

end
